theory Spec2Isabelle
  imports Main
begin

section \<open>The credential store\<close>

text \<open>
  The application in \<^verbatim>\<open>app.py\<close> keeps its users in the MongoDB collection
  \<^verbatim>\<open>users = db.users\<close>. A document is a Python dict; the values the application
  stores and reads are texts, object identifiers and \<^verbatim>\<open>None\<close>. The collection is the list
  of its documents in insertion order. Every handler runs to completion on its own, so the
  collection is passed in and returned.

  Texts are HOL strings, one \<^typ>\<open>char\<close> standing for one character of the Python
  \<^verbatim>\<open>str\<close>; \<^verbatim>\<open>len\<close> is \<^const>\<open>length\<close>.
\<close>

datatype error = InvalidId | KeyError string | TypeError | ValueError

datatype objectid = OID string

datatype bson = Str string | ObjId objectid | Null

type_synonym document = "(string \<times> bson) list"

type_synonym collection = "document list"

text \<open>
  \<^verbatim>\<open>bson.ObjectId(oid)\<close> for a text \<^verbatim>\<open>oid\<close>: by the library's contract the text must be
  24 hexadecimal digits, otherwise \<^verbatim>\<open>InvalidId\<close> is raised. Two identifiers are equal when
  their twelve bytes are, so the digits are kept in lower case, which is also what
  \<^verbatim>\<open>str\<close> of an identifier prints.
\<close>

definition is_hex :: "char \<Rightarrow> bool" where
  "is_hex c = (c \<in> set ''0123456789abcdefABCDEF'')"

definition lower_hex :: "char \<Rightarrow> char" where
  "lower_hex c =
     (if c = CHR ''A'' then CHR ''a'' else if c = CHR ''B'' then CHR ''b''
      else if c = CHR ''C'' then CHR ''c'' else if c = CHR ''D'' then CHR ''d''
      else if c = CHR ''E'' then CHR ''e'' else if c = CHR ''F'' then CHR ''f''
      else c)"

definition is_valid :: "string \<Rightarrow> bool" where
  "is_valid oid = (length oid = 24 \<and> list_all is_hex oid)"

definition ObjectId :: "string \<Rightarrow> error + objectid" where
  "ObjectId oid = (if is_valid oid then Inr (OID (map lower_hex oid)) else Inl InvalidId)"

text \<open>Python's \<^verbatim>\<open>str\<close> on the values a document holds.\<close>

fun py_str :: "bson \<Rightarrow> string" where
  "py_str (Str s) = s"
| "py_str (ObjId (OID h)) = h"
| "py_str Null = ''None''"

text \<open>
  A query document such as \<^verbatim>\<open>{'username': x}\<close> selects the documents whose field equals
  the given value; a query for \<^verbatim>\<open>None\<close> also selects the documents without the field.
  \<^verbatim>\<open>find_one\<close> returns the first selected document, or \<^verbatim>\<open>None\<close>.
\<close>

definition matches :: "document \<Rightarrow> string \<times> bson \<Rightarrow> bool" where
  "matches d kv = (case map_of d (fst kv) of None \<Rightarrow> snd kv = Null | Some w \<Rightarrow> w = snd kv)"

definition find_one :: "document \<Rightarrow> collection \<Rightarrow> document option" where
  "find_one query coll = find (\<lambda>d. list_all (matches d) query) coll"

text \<open>
  \<^verbatim>\<open>insert_one\<close> gives the document an \<^verbatim>\<open>_id\<close> when it has none and appends it. The
  identifier is generated by the driver; it is an input of the model.
\<close>

definition insert_one :: "objectid \<Rightarrow> document \<Rightarrow> collection \<Rightarrow> collection" where
  "insert_one new_id d coll =
     (case map_of d ''_id'' of
        None \<Rightarrow> coll @ [d @ [(''_id'', ObjId new_id)]]
      | Some _ \<Rightarrow> coll @ [d])"

text \<open>Subscription \<^verbatim>\<open>d[k]\<close> raises \<^verbatim>\<open>KeyError\<close> on a missing key.\<close>

definition getitem :: "document \<Rightarrow> string \<Rightarrow> error + bson" where
  "getitem d k = (case map_of d k of None \<Rightarrow> Inl (KeyError k) | Some v \<Rightarrow> Inr v)"

definition and_then :: "error + 'a \<Rightarrow> ('a \<Rightarrow> error + 'b) \<Rightarrow> error + 'b" where
  "and_then r f = (case r of Inl e \<Rightarrow> Inl e | Inr x \<Rightarrow> f x)"


section \<open>The user model\<close>

text \<open>
  Class \<^verbatim>\<open>User\<close>. The attribute \<^verbatim>\<open>_id\<close> is the field \<open>mongo_id\<close>; it defaults to
  \<^verbatim>\<open>None\<close>. The attribute \<^verbatim>\<open>password\<close> holds what the document holds under
  \<^verbatim>\<open>'password'\<close>.
\<close>

record User =
  mongo_id :: bson
  first_name :: bson
  last_name :: bson
  email :: bson
  username :: bson
  password :: bson

definition save :: "objectid \<Rightarrow> User \<Rightarrow> collection \<Rightarrow> collection" where
  "save new_id self coll =
     (let user_data =
        [(''first_name'', first_name self),
         (''last_name'', last_name self),
         (''email'', email self),
         (''username'', username self),
         (''password'', password self)]
      in insert_one new_id user_data coll)"

definition is_authenticated :: "User \<Rightarrow> bool" where
  "is_authenticated self = True"

definition is_active :: "User \<Rightarrow> bool" where
  "is_active self = True"

definition is_anonymous :: "User \<Rightarrow> bool" where
  "is_anonymous self = False"

definition get_id :: "User \<Rightarrow> string" where
  "get_id self = py_str (mongo_id self)"

text \<open>
  Both \<^verbatim>\<open>load_user\<close> and \<^verbatim>\<open>login\<close> build the user object from a document with the same
  six subscriptions, evaluated in the order of the keyword arguments.
\<close>

definition user_of_document :: "document \<Rightarrow> error + User" where
  "user_of_document user_data =
     and_then (getitem user_data ''first_name'') (\<lambda>fn.
     and_then (getitem user_data ''last_name'') (\<lambda>ln.
     and_then (getitem user_data ''email'') (\<lambda>em.
     and_then (getitem user_data ''username'') (\<lambda>un.
     and_then (getitem user_data ''password'') (\<lambda>pw.
     and_then (getitem user_data ''_id'') (\<lambda>i.
       Inr \<lparr>mongo_id = i, first_name = fn, last_name = ln, email = em,
            username = un, password = pw\<rparr>))))))"

text \<open>
  The user loader. \<^verbatim>\<open>ObjectId(user_id)\<close> is evaluated first and is not guarded; an empty
  dict is false in \<^verbatim>\<open>if user_data\<close>.
\<close>

definition load_user :: "collection \<Rightarrow> string \<Rightarrow> error + User option" where
  "load_user coll user_id =
     and_then (ObjectId user_id) (\<lambda>oid.
       case find_one [(''_id'', ObjId oid)] coll of
         None \<Rightarrow> Inr None
       | Some user_data \<Rightarrow>
           if user_data \<noteq> [] then and_then (user_of_document user_data) (\<lambda>u. Inr (Some u))
           else Inr None)"


section \<open>Requests, responses and the state between requests\<close>

text \<open>
  What a handler can change: the collection \<^verbatim>\<open>users\<close>, the client's session (the user id
  that \<^verbatim>\<open>login_user\<close> stores under \<^verbatim>\<open>_user_id\<close> and the flashed messages, each a pair
  of category and message) and the lines printed to the console.
\<close>

record state =
  users :: collection
  session_user_id :: "string option"
  flashes :: "(string \<times> string) list"
  stdout :: "string list"

text \<open>
  Every route but the home page is declared with \<^verbatim>\<open>methods=['GET', 'POST']\<close>. Of a
  request the handlers use the method, the requested path with its query (for the
  \<^verbatim>\<open>next\<close> parameter of the login redirect), the submitted form fields, and the verdict
  of the CSRF check that \<^verbatim>\<open>FlaskForm\<close> runs: \<open>None\<close> when the token is accepted, the
  error text otherwise.
\<close>

datatype http_method = GET | POST

record request =
  req_method :: http_method
  req_target :: string
  req_form :: "(string \<times> string) list"
  csrf_error :: "string option"

text \<open>
  A form object: the data of its text fields (\<^verbatim>\<open>form.username.data\<close>, \<^verbatim>\<open>None\<close> when the
  field was not sent) and \<^verbatim>\<open>form.errors\<close>, the fields that have errors with their messages.
\<close>

record Form =
  form_fields :: "(string \<times> string option) list"
  errors :: "(string \<times> string list) list"

datatype response =
    Render string "Form option"
  | Redirect string "(string \<times> string) list"

datatype endpoint = Home | Login | Dashboard | Logout | Register

fun url_for :: "endpoint \<Rightarrow> string" where
  "url_for Home = ''/''"
| "url_for Login = ''/login''"
| "url_for Dashboard = ''/dashboard''"
| "url_for Logout = ''/logout''"
| "url_for Register = ''/register''"

definition flash :: "string \<Rightarrow> string \<Rightarrow> state \<Rightarrow> state" where
  "flash message category s = s\<lparr>flashes := flashes s @ [(category, message)]\<rparr>"


section \<open>Form validation\<close>

text \<open>
  A validator passes, raises \<^verbatim>\<open>ValidationError\<close> (the message is recorded and the chain
  goes on) or raises \<^verbatim>\<open>StopValidation\<close> (the message is recorded and the chain ends). The
  validators declared on a field run first, the form's \<^verbatim>\<open>validate_<field>\<close> method last.
\<close>

datatype verdict = Pass | ValidationError string | StopValidation string

type_synonym validator = "string option \<Rightarrow> verdict"

fun run_validation_chain :: "validator list \<Rightarrow> string option \<Rightarrow> string list" where
  "run_validation_chain [] d = []"
| "run_validation_chain (v # vs) d =
     (case v d of
        Pass \<Rightarrow> run_validation_chain vs d
      | ValidationError m \<Rightarrow> m # run_validation_chain vs d
      | StopValidation m \<Rightarrow> [m])"

fun show_nat :: "nat \<Rightarrow> string" where
  "show_nat n =
     (if n < 10 then [''0123456789'' ! n]
      else show_nat (n div 10) @ [''0123456789'' ! (n mod 10)])"

definition InputRequired :: validator where
  "InputRequired d =
     (case d of
        Some (c # cs) \<Rightarrow> Pass
      | _ \<Rightarrow> StopValidation ''This field is required.'')"

text \<open>\<^verbatim>\<open>Length(min, max)\<close> with both bounds given and different, as in both forms.\<close>

definition Length :: "nat \<Rightarrow> nat \<Rightarrow> validator" where
  "Length lo hi d =
     (let l = (case d of None \<Rightarrow> 0 | Some t \<Rightarrow> length t)
      in if lo \<le> l \<and> l \<le> hi then Pass
         else ValidationError
           (''Field must be between '' @ show_nat lo @ '' and '' @ show_nat hi
              @ '' characters long.''))"

text \<open>
  \<^verbatim>\<open>Email()\<close> asks the \<^verbatim>\<open>email_validator\<close> package whether the text is an address;
  that decision is the parameter \<open>ok\<close>.
\<close>

definition Email :: "(string \<Rightarrow> bool) \<Rightarrow> validator" where
  "Email ok d =
     (case d of
        None \<Rightarrow> ValidationError ''Invalid email address.''
      | Some t \<Rightarrow> if ok t then Pass else ValidationError ''Invalid email address.'')"

fun py_value :: "string option \<Rightarrow> bson" where
  "py_value None = Null"
| "py_value (Some t) = Str t"

definition truthy :: "document option \<Rightarrow> bool" where
  "truthy r = (case r of None \<Rightarrow> False | Some d \<Rightarrow> d \<noteq> [])"

definition validate_username :: "collection \<Rightarrow> validator" where
  "validate_username coll d =
     (let existing_user_username = find_one [(''username'', py_value d)] coll
      in if truthy existing_user_username
         then ValidationError ''This username already exists. Please choose a different one.''
         else Pass)"

definition validate_email :: "collection \<Rightarrow> validator" where
  "validate_email coll d =
     (let existing_user_email = find_one [(''email'', py_value d)] coll
      in if truthy existing_user_email
         then ValidationError ''This email is already in use. Please choose a different one.''
         else Pass)"

type_synonym form_class = "(string \<times> validator list) list"

definition RegisterForm :: "(string \<Rightarrow> bool) \<Rightarrow> collection \<Rightarrow> form_class" where
  "RegisterForm email_ok coll =
     [(''first_name'', [InputRequired]),
      (''last_name'', [InputRequired]),
      (''email'', [InputRequired, Email email_ok, validate_email coll]),
      (''username'', [InputRequired, Length 4 20, validate_username coll]),
      (''password'', [InputRequired, Length 8 20])]"

definition LoginForm :: form_class where
  "LoginForm =
     [(''username'', [InputRequired, Length 4 20]),
      (''password'', [InputRequired, Length 8 20])]"

definition is_submitted :: "request \<Rightarrow> bool" where
  "is_submitted req = (req_method req = POST)"

text \<open>Creating the form binds the submitted fields, and only for a submitted request.\<close>

definition new_form :: "form_class \<Rightarrow> request \<Rightarrow> Form" where
  "new_form cls req =
     \<lparr>form_fields =
        map (\<lambda>(name, vs).
          (name, if is_submitted req then map_of (req_form req) name else None)) cls,
      errors = []\<rparr>"

definition field_data :: "Form \<Rightarrow> string \<Rightarrow> string option" where
  "field_data frm name = (case map_of (form_fields frm) name of None \<Rightarrow> None | Some d \<Rightarrow> d)"

text \<open>
  \<^verbatim>\<open>validate\<close> runs the chain of every field, then the CSRF field, and succeeds when no
  field has an error.
\<close>

definition validate :: "form_class \<Rightarrow> request \<Rightarrow> Form \<Rightarrow> bool \<times> Form" where
  "validate cls req frm =
     (let errs = map (\<lambda>(name, vs). (name, run_validation_chain vs (field_data frm name))) cls
                 @ [(''csrf_token'', case csrf_error req of None \<Rightarrow> [] | Some m \<Rightarrow> [m])];
          frm' = frm\<lparr>errors := filter (\<lambda>(name, es). es \<noteq> []) errs\<rparr>
      in (errors frm' = [], frm'))"

definition validate_on_submit :: "form_class \<Rightarrow> request \<Rightarrow> Form \<Rightarrow> bool \<times> Form" where
  "validate_on_submit cls req frm =
     (if is_submitted req then validate cls req frm else (False, frm))"


section \<open>Session handling\<close>

text \<open>
  The login manager is configured with \<^verbatim>\<open>login_view = 'login'\<close> and the user loader
  \<^verbatim>\<open>load_user\<close>. The current user of a request is found from the session: without a
  stored user id the user is anonymous (\<open>None\<close>), otherwise the loader decides, and an
  exception of the loader is an exception of the request.
\<close>

definition current_user :: "state \<Rightarrow> error + User option" where
  "current_user s =
     (case session_user_id s of
        None \<Rightarrow> Inr None
      | Some user_id \<Rightarrow> load_user (users s) user_id)"

definition login_user :: "User \<Rightarrow> state \<Rightarrow> state" where
  "login_user user s =
     (if \<not> is_active user then s else s\<lparr>session_user_id := Some (get_id user)\<rparr>)"

definition logout_user :: "state \<Rightarrow> state" where
  "logout_user s = s\<lparr>session_user_id := None\<rparr>"

text \<open>
  An unauthorized request is sent to the login view: the manager flashes its standard
  message and redirects to the URL of the view, with the requested URL as \<^verbatim>\<open>next\<close>.
\<close>

definition unauthorized :: "state \<Rightarrow> request \<Rightarrow> state \<times> response" where
  "unauthorized s req =
     (flash ''Please log in to access this page.'' ''message'' s,
      Redirect (url_for Login) [(''next'', req_target req)])"

type_synonym view = "state \<Rightarrow> request \<Rightarrow> error + state \<times> response"

definition login_required :: "view \<Rightarrow> view" where
  "login_required func s req =
     and_then (current_user s) (\<lambda>cu.
       case cu of
         None \<Rightarrow> Inr (unauthorized s req)
       | Some user \<Rightarrow>
           if \<not> is_authenticated user then Inr (unauthorized s req) else func s req)"


section \<open>The routes\<close>

text \<open>
  The password hasher is the \<^verbatim>\<open>flask_bcrypt\<close> object; its two operations and the address
  check of \<^verbatim>\<open>Email()\<close> are parameters of the model. Hashing draws a salt, which is an
  argument here.
\<close>

record environment =
  email_syntax_ok :: "string \<Rightarrow> bool"
  generate_password_hash :: "string \<Rightarrow> string \<Rightarrow> string"
  check_password_hash :: "string \<Rightarrow> string \<Rightarrow> bool"

definition home :: view where
  "home s req = Inr (s, Render ''home.html'' None)"

text \<open>
  \<^verbatim>\<open>bcrypt.check_password_hash(user_data['password'], form.password.data)\<close>: the
  subscription may raise \<^verbatim>\<open>KeyError\<close>; the hasher needs two texts.
\<close>

definition check_stored :: "environment \<Rightarrow> document \<Rightarrow> string option \<Rightarrow> error + bool" where
  "check_stored env user_data pw =
     and_then (getitem user_data ''password'') (\<lambda>h.
       case (h, pw) of
         (Str pw_hash, Some p) \<Rightarrow> Inr (check_password_hash env pw_hash p)
       | _ \<Rightarrow> Inl TypeError)"

definition login :: "environment \<Rightarrow> view" where
  "login env s req =
     (let (valid, form) = validate_on_submit LoginForm req (new_form LoginForm req);
          failed = Inr (flash ''Invalid username or password'' ''error'' s,
                        Render ''login.html'' (Some form))
      in if valid then
           (case find_one [(''username'', py_value (field_data form ''username''))] (users s) of
              None \<Rightarrow> failed
            | Some user_data \<Rightarrow>
                if user_data \<noteq> [] then
                  and_then (check_stored env user_data (field_data form ''password''))
                    (\<lambda>matched.
                       if matched then
                         and_then (user_of_document user_data) (\<lambda>user_obj.
                           Inr (login_user user_obj s, Redirect (url_for Dashboard) []))
                       else failed)
                else failed)
         else Inr (s, Render ''login.html'' (Some form)))"

definition dashboard_view :: view where
  "dashboard_view s req = Inr (s, Render ''dashboard.html'' None)"

definition dashboard :: view where
  "dashboard = login_required dashboard_view"

definition logout_view :: view where
  "logout_view s req = Inr (logout_user s, Redirect (url_for Login) [])"

definition logout :: view where
  "logout = login_required logout_view"

text \<open>The lines that \<^verbatim>\<open>register\<close> prints when the form has errors.\<close>

definition error_lines :: "(string \<times> string list) list \<Rightarrow> string list" where
  "error_lines errs =
     (if errs \<noteq> [] then
        ''Form errors:'' #
        concat (map (\<lambda>(field, es).
          map (\<lambda>e. ''Error in the '' @ field @ '' field - '' @ e) es) errs)
      else [])"

definition register :: "environment \<Rightarrow> objectid \<Rightarrow> string \<Rightarrow> view" where
  "register env new_id salt s req =
     (let cls = RegisterForm (email_syntax_ok env) (users s);
          (valid, form) = validate_on_submit cls req (new_form cls req)
      in if valid then
           (case field_data form ''password'' of
              None \<Rightarrow> Inl ValueError
            | Some [] \<Rightarrow> Inl ValueError
            | Some pw \<Rightarrow>
                (let hashed_password = generate_password_hash env salt pw;
                     new_user =
                       \<lparr>mongo_id = Null,
                        first_name = py_value (field_data form ''first_name''),
                        last_name = py_value (field_data form ''last_name''),
                        email = py_value (field_data form ''email''),
                        username = py_value (field_data form ''username''),
                        password = Str hashed_password\<rparr>
                 in Inr (s\<lparr>users := save new_id new_user (users s)\<rparr>,
                         Redirect (url_for Login) [])))
         else Inr (s\<lparr>stdout := stdout s @ error_lines (errors form)\<rparr>,
                   Render ''register.html'' (Some form)))"


section \<open>Notions used to state the properties\<close>

text \<open>
  The static method \<^verbatim>\<open>User.validate_login\<close> hands its two arguments to the hasher.
\<close>

definition validate_login :: "environment \<Rightarrow> string \<Rightarrow> string \<Rightarrow> bool" where
  "validate_login env password_hash pw = check_password_hash env password_hash pw"

text \<open>No document of the collection has the given identifier.\<close>

definition no_record_with_id :: "collection \<Rightarrow> objectid \<Rightarrow> bool" where
  "no_record_with_id coll oid = list_all (\<lambda>d. map_of d ''_id'' \<noteq> Some (ObjId oid)) coll"

text \<open>Some document of the collection holds the text \<open>t\<close> under the key \<open>k\<close>.\<close>

definition taken :: "string \<Rightarrow> collection \<Rightarrow> string \<Rightarrow> bool" where
  "taken k coll t = list_ex (\<lambda>d. map_of d k = Some (Str t)) coll"

text \<open>
  A registration request is accepted when \<^verbatim>\<open>form.validate_on_submit()\<close> of
  \<^verbatim>\<open>register\<close> returns true.
\<close>

definition registration_accepted :: "environment \<Rightarrow> state \<Rightarrow> request \<Rightarrow> bool" where
  "registration_accepted env s req =
     (let cls = RegisterForm (email_syntax_ok env) (users s)
      in fst (validate_on_submit cls req (new_form cls req)))"

text \<open>
  The input contract of the registration flow as the specification words it: all five
  fields present and not empty, a valid address, a username of 4 to 20 and a password of
  8 to 20 characters, username and address not yet in the store; the request is a
  submission whose CSRF token the framework accepted.
\<close>

definition registration_contract :: "environment \<Rightarrow> state \<Rightarrow> request \<Rightarrow> bool" where
  "registration_contract env s req =
     (req_method req = POST \<and> csrf_error req = None \<and>
      (case (map_of (req_form req) ''first_name'', map_of (req_form req) ''last_name'',
             map_of (req_form req) ''email'', map_of (req_form req) ''username'',
             map_of (req_form req) ''password'') of
         (Some fn, Some ln, Some em, Some un, Some pw) \<Rightarrow>
            fn \<noteq> [] \<and> ln \<noteq> [] \<and>
            em \<noteq> [] \<and> email_syntax_ok env em \<and> \<not> taken ''email'' (users s) em \<and>
            4 \<le> length un \<and> length un \<le> 20 \<and> \<not> taken ''username'' (users s) un \<and>
            8 \<le> length pw \<and> length pw \<le> 20
       | _ \<Rightarrow> False))"





section \<open>Example data\<close>

text \<open>
  Concrete inputs on which the properties below are evaluated. The environment has a
  stand-in address check and a stand-in hasher (salt, separator, reversed text); they are
  not the libraries' functions. The registration is the one of the specification's
  scenario: \<^verbatim>\<open>alice2024\<close> with \<^verbatim>\<open>Passw0rd!\<close> and \<^verbatim>\<open>a@x.com\<close>.
\<close>

definition demo_env :: environment where
  "demo_env =
     \<lparr>email_syntax_ok = (\<lambda>t. CHR ''@'' \<in> set t),
      generate_password_hash = (\<lambda>salt p. salt @ ''$'' @ rev p),
      check_password_hash = (\<lambda>h p. dropWhile (\<lambda>c. c \<noteq> CHR ''$'') h = ''$'' @ rev p)\<rparr>"

definition empty_state :: state where
  "empty_state = \<lparr>users = [], session_user_id = None, flashes = [], stdout = []\<rparr>"

definition alice_request :: request where
  "alice_request =
     \<lparr>req_method = POST, req_target = ''/register'',
      req_form = [(''first_name'', ''Alice''), (''last_name'', ''Liddell''),
                  (''email'', ''a@x.com''), (''username'', ''alice2024''),
                  (''password'', ''Passw0rd!'')],
      csrf_error = None\<rparr>"

definition alice_document :: document where
  "alice_document =
     [(''first_name'', Str ''Alice''), (''last_name'', Str ''Liddell''),
      (''email'', Str ''a@x.com''), (''username'', Str ''alice2024''),
      (''password'', Str ''salt$!dr0wssaP''),
      (''_id'', ObjId (OID ''64b7f0c2a1d3e4f5a6b7c8d9''))]"

definition alice_state :: state where
  "alice_state = empty_state\<lparr>users := [alice_document]\<rparr>"

definition alice_user :: User where
  "alice_user =
     \<lparr>mongo_id = ObjId (OID ''64b7f0c2a1d3e4f5a6b7c8d9''),
      first_name = Str ''Alice'', last_name = Str ''Liddell'', email = Str ''a@x.com'',
      username = Str ''alice2024'', password = Str ''salt$!dr0wssaP''\<rparr>"


definition wrong_password_request :: request where
  "wrong_password_request =
     \<lparr>req_method = POST, req_target = ''/login'',
      req_form = [(''username'', ''alice2024''), (''password'', ''Passw0rd?'')],
      csrf_error = None\<rparr>"

definition get_request :: "string \<Rightarrow> request" where
  "get_request path = \<lparr>req_method = GET, req_target = path, req_form = [], csrf_error = None\<rparr>"

definition alice_session :: state where
  "alice_session = alice_state\<lparr>session_user_id := Some ''64b7f0c2a1d3e4f5a6b7c8d9''\<rparr>"

definition stale_session :: state where
  "stale_session = alice_state\<lparr>session_user_id := Some ''0123456789abcdef01234567''\<rparr>"



section \<open>Auxiliary facts\<close>

lemma and_then_Inl [simp]: "and_then (Inl e) f = Inl e"
  by (simp add: and_then_def)

lemma and_then_Inr [simp]: "and_then (Inr x) f = f x"
  by (simp add: and_then_def)

lemma find_one_None_iff: "find_one q coll = None \<longleftrightarrow> (\<forall>d\<in>set coll. \<not> list_all (matches d) q)"
  by (auto simp: find_one_def find_None_iff)

lemma find_one_id_absent:
  assumes "\<forall>d\<in>set coll. map_of d ''_id'' \<noteq> Some (ObjId oid)"
  shows "find_one [(''_id'', ObjId oid)] coll = None"
  using assms by (auto simp: find_one_None_iff matches_def split: option.splits)

lemma InputRequired_Pass: "t \<noteq> [] \<Longrightarrow> InputRequired (Some t) = Pass"
  by (cases t) (simp_all add: InputRequired_def)

lemma Length_Pass: "lo \<le> length t \<Longrightarrow> length t \<le> hi \<Longrightarrow> Length lo hi (Some t) = Pass"
  by (simp add: Length_def)

lemma login_form_accepts:
  assumes "req_method req = POST" and "csrf_error req = None"
    and "map_of (req_form req) ''username'' = Some u" and "4 \<le> length u" and "length u \<le> 20"
    and "map_of (req_form req) ''password'' = Some p" and "8 \<le> length p" and "length p \<le> 20"
  shows "validate_on_submit LoginForm req (new_form LoginForm req) =
           (True, \<lparr>form_fields = [(''username'', Some u), (''password'', Some p)], errors = []\<rparr>)"
proof -
  have "u \<noteq> []" and "p \<noteq> []" using assms(4,7) by auto
  then show ?thesis using assms
    by (simp add: validate_on_submit_def validate_def is_submitted_def new_form_def LoginForm_def
        field_data_def InputRequired_Pass Length_Pass)
qed

lemma find_one_Str:
  "find_one [(k, Str t)] coll = find (\<lambda>d. map_of d k = Some (Str t)) coll"
proof -
  have "(\<lambda>d. list_all (matches d) [(k, Str t)]) = (\<lambda>d. map_of d k = Some (Str t))"
    by (auto simp: matches_def fun_eq_iff split: option.splits)
  then show ?thesis by (simp add: find_one_def)
qed

lemma truthy_find_one_Str: "truthy (find_one [(k, Str t)] coll) \<longleftrightarrow> taken k coll t"
proof (cases "find (\<lambda>d. map_of d k = Some (Str t)) coll")
  case None
  then have "\<not> taken k coll t"
    by (simp add: taken_def list_ex_iff find_None_iff)
  then show ?thesis using None
    by (simp add: truthy_def find_one_Str)
next
  case (Some d)
  then have "map_of d k = Some (Str t)" and "d \<in> set coll"
    by (auto simp: find_Some_iff)
  then show ?thesis using Some
    by (auto simp: truthy_def find_one_Str taken_def list_ex_iff)
qed

lemma chain_required_iff:
  "run_validation_chain [InputRequired] d = [] \<longleftrightarrow> (\<exists>t. d = Some t \<and> t \<noteq> [])"
  by (auto simp: InputRequired_def split: option.splits list.splits)

lemma chain_length_iff:
  "run_validation_chain [InputRequired, Length lo hi] d = [] \<longleftrightarrow>
     (\<exists>t. d = Some t \<and> t \<noteq> [] \<and> lo \<le> length t \<and> length t \<le> hi)"
  by (auto simp: InputRequired_def Length_def split: option.splits list.splits)

lemma chain_username_iff:
  "run_validation_chain [InputRequired, Length lo hi, validate_username coll] d = [] \<longleftrightarrow>
     (\<exists>t. d = Some t \<and> t \<noteq> [] \<and> lo \<le> length t \<and> length t \<le> hi \<and> \<not> taken ''username'' coll t)"
  by (cases d) (auto simp: InputRequired_def Length_def validate_username_def truthy_find_one_Str
      split: list.splits)

lemma chain_email_iff:
  "run_validation_chain [InputRequired, Email ok, validate_email coll] d = [] \<longleftrightarrow>
     (\<exists>t. d = Some t \<and> t \<noteq> [] \<and> ok t \<and> \<not> taken ''email'' coll t)"
  by (cases d) (auto simp: InputRequired_def Email_def validate_email_def truthy_find_one_Str
      split: list.splits)

lemma register_form_data:
  "field_data (new_form (RegisterForm ok coll) req) k =
     (if is_submitted req \<and> k \<in> {''first_name'', ''last_name'', ''email'', ''username'', ''password''}
      then map_of (req_form req) k else None)"
  by (simp add: field_data_def new_form_def RegisterForm_def)

lemma registration_accepted_iff:
  "registration_accepted env s req \<longleftrightarrow> registration_contract env s req"
proof (cases "req_method req = POST")
  case False
  then show ?thesis
    by (simp add: registration_accepted_def registration_contract_def validate_on_submit_def
        is_submitted_def)
next
  case True
  then have sub: "is_submitted req" by (simp add: is_submitted_def)
  let ?cls = "RegisterForm (email_syntax_ok env) (users s)"
  let ?frm = "new_form ?cls req"
  have "registration_accepted env s req \<longleftrightarrow>
          run_validation_chain [InputRequired] (map_of (req_form req) ''first_name'') = []
        \<and> run_validation_chain [InputRequired] (map_of (req_form req) ''last_name'') = []
        \<and> run_validation_chain [InputRequired, Email (email_syntax_ok env), validate_email (users s)]
            (map_of (req_form req) ''email'') = []
        \<and> run_validation_chain [InputRequired, Length 4 20, validate_username (users s)]
            (map_of (req_form req) ''username'') = []
        \<and> run_validation_chain [InputRequired, Length 8 20] (map_of (req_form req) ''password'') = []
        \<and> csrf_error req = None"
    unfolding registration_accepted_def Let_def validate_on_submit_def validate_def
    using sub
    by (simp add: register_form_data filter_empty_conv)
       (auto simp: RegisterForm_def split: option.splits)
  also have "\<dots> \<longleftrightarrow> registration_contract env s req"
    unfolding chain_required_iff chain_length_iff chain_username_iff chain_email_iff
      registration_contract_def
    using True by (auto split: option.splits)
  finally show ?thesis .
qed

lemma validate_on_submit_fields:
  "form_fields (snd (validate_on_submit cls req frm)) = form_fields frm"
  by (simp add: validate_on_submit_def validate_def Let_def)

lemma validate_on_submit_data:
  "field_data (snd (validate_on_submit cls req frm)) k = field_data frm k"
  by (simp add: field_data_def validate_on_submit_fields)

lemma register_unfold:
  "register env new_id salt s req =
     (let cls = RegisterForm (email_syntax_ok env) (users s);
          form = snd (validate_on_submit cls req (new_form cls req))
      in if registration_accepted env s req then
           (case map_of (req_form req) ''password'' of
              None \<Rightarrow> Inl ValueError
            | Some [] \<Rightarrow> Inl ValueError
            | Some pw \<Rightarrow>
                Inr (s\<lparr>users := users s @
                       [[(''first_name'', py_value (map_of (req_form req) ''first_name'')),
                         (''last_name'', py_value (map_of (req_form req) ''last_name'')),
                         (''email'', py_value (map_of (req_form req) ''email'')),
                         (''username'', py_value (map_of (req_form req) ''username'')),
                         (''password'', Str (generate_password_hash env salt pw)),
                         (''_id'', ObjId new_id)]]\<rparr>,
                     Redirect ''/login'' []))
         else Inr (s\<lparr>stdout := stdout s @ error_lines (errors form)\<rparr>,
                   Render ''register.html'' (Some form)))"
proof (cases "registration_accepted env s req")
  case False
  then show ?thesis
    by (simp add: register_def registration_accepted_def Let_def case_prod_beta)
next
  case True
  then have "is_submitted req"
    by (auto simp: registration_accepted_def validate_on_submit_def Let_def split: if_splits)
  then show ?thesis using True
    by (simp add: register_def registration_accepted_def Let_def case_prod_beta
        validate_on_submit_data register_form_data save_def insert_one_def
        split: option.splits list.splits)
qed

lemma register_accepted:
  assumes "registration_accepted env s req"
  shows "\<exists>fn ln em un pw.
           map_of (req_form req) ''first_name'' = Some fn \<and>
           map_of (req_form req) ''last_name'' = Some ln \<and>
           map_of (req_form req) ''email'' = Some em \<and>
           map_of (req_form req) ''username'' = Some un \<and>
           map_of (req_form req) ''password'' = Some pw \<and>
           \<not> taken ''email'' (users s) em \<and> \<not> taken ''username'' (users s) un \<and>
           register env new_id salt s req =
             Inr (s\<lparr>users := users s @
                    [[(''first_name'', Str fn), (''last_name'', Str ln), (''email'', Str em),
                      (''username'', Str un),
                      (''password'', Str (generate_password_hash env salt pw)),
                      (''_id'', ObjId new_id)]]\<rparr>,
                  Redirect ''/login'' [])"
proof -
  from assms have c: "registration_contract env s req"
    by (simp add: registration_accepted_iff)
  then obtain fn ln em un pw where f:
    "map_of (req_form req) ''first_name'' = Some fn"
    "map_of (req_form req) ''last_name'' = Some ln"
    "map_of (req_form req) ''email'' = Some em"
    "map_of (req_form req) ''username'' = Some un"
    "map_of (req_form req) ''password'' = Some pw"
    by (auto simp: registration_contract_def split: option.splits)
  with c have p: "pw \<noteq> []" "\<not> taken ''email'' (users s) em" "\<not> taken ''username'' (users s) un"
    by (auto simp: registration_contract_def)
  then obtain c cs where "pw = c # cs" by (cases pw) auto
  with f p assms show ?thesis
    by (simp add: register_unfold)
qed

lemma register_rejected:
  assumes "\<not> registration_accepted env s req"
  shows "\<exists>form. register env new_id salt s req =
           Inr (s\<lparr>stdout := stdout s @ error_lines (errors form)\<rparr>,
                Render ''register.html'' (Some form))"
  using assms by (simp add: register_unfold Let_def)








section \<open>The access gate\<close>

text \<open>
  Claim C1. A request to \<^verbatim>\<open>/dashboard\<close> or \<^verbatim>\<open>/logout\<close> in state Anonymous (the session
  resolves to no user) is answered by a redirect to the login entry point \<^verbatim>\<open>/login\<close>;
  the dashboard is not rendered, and the logout handler does not run.
\<close>

theorem anonymous_redirected_to_login:
  assumes "current_user s = Inr None"
  shows "dashboard s req =
           Inr (flash ''Please log in to access this page.'' ''message'' s,
                Redirect ''/login'' [(''next'', req_target req)])
       \<and> logout s req =
           Inr (flash ''Please log in to access this page.'' ''message'' s,
                Redirect ''/login'' [(''next'', req_target req)])
       \<and> (\<forall>s' t f. dashboard s req \<noteq> Inr (s', Render t f))"
  using assms by (simp add: dashboard_def logout_def login_required_def unauthorized_def)

theorem anonymous_redirected_to_login_witness:
  "current_user empty_state = Inr None
   \<and> dashboard empty_state (get_request ''/dashboard'') =
       Inr (flash ''Please log in to access this page.'' ''message'' empty_state,
            Redirect ''/login'' [(''next'', ''/dashboard'')])
   \<and> logout empty_state (get_request ''/logout'') =
       Inr (flash ''Please log in to access this page.'' ''message'' empty_state,
            Redirect ''/login'' [(''next'', ''/logout'')])"
proof -
  have h: "current_user empty_state = Inr None"
    by (simp add: current_user_def empty_state_def)
  show ?thesis
    using h anonymous_redirected_to_login [OF h, of "get_request ''/dashboard''"]
      anonymous_redirected_to_login [OF h, of "get_request ''/logout''"]
    by (simp add: get_request_def)
qed

text \<open>
  Claim C2. When the user id bound to the session is a well-formed identifier and the
  store has no record with it, the loader returns \<^verbatim>\<open>None\<close>, the request has no current
  user, and the protected routes answer as for an anonymous request.
\<close>

theorem load_user_unknown_id:
  assumes "ObjectId user_id = Inr oid"
    and "no_record_with_id (users s) oid"
    and "session_user_id s = Some user_id"
  shows "load_user (users s) user_id = Inr None \<and> current_user s = Inr None
       \<and> dashboard s req = Inr (unauthorized s req)
       \<and> logout s req = Inr (unauthorized s req)"
proof -
  have "find_one [(''_id'', ObjId oid)] (users s) = None"
    using assms(2) by (intro find_one_id_absent) (simp add: no_record_with_id_def list_all_iff)
  then have l: "load_user (users s) user_id = Inr None"
    using assms(1) by (simp add: load_user_def)
  then have c: "current_user s = Inr None"
    using assms(3) by (simp add: current_user_def)
  then show ?thesis using l
    by (simp add: dashboard_def logout_def login_required_def)
qed

theorem load_user_unknown_id_witness:
  "ObjectId ''0123456789abcdef01234567'' = Inr (OID ''0123456789abcdef01234567'')
   \<and> no_record_with_id (users stale_session) (OID ''0123456789abcdef01234567'')
   \<and> session_user_id stale_session = Some ''0123456789abcdef01234567''
   \<and> load_user (users stale_session) ''0123456789abcdef01234567'' = Inr None
   \<and> current_user stale_session = Inr None
   \<and> dashboard stale_session (get_request ''/dashboard'') =
       Inr (unauthorized stale_session (get_request ''/dashboard''))"
proof -
  have h1: "ObjectId ''0123456789abcdef01234567'' = Inr (OID ''0123456789abcdef01234567'')"
    by (simp add: ObjectId_def is_valid_def is_hex_def lower_hex_def)
  have h2: "no_record_with_id (users stale_session) (OID ''0123456789abcdef01234567'')"
    by (simp add: no_record_with_id_def stale_session_def alice_state_def empty_state_def
        alice_document_def)
  have h3: "session_user_id stale_session = Some ''0123456789abcdef01234567''"
    by (simp add: stale_session_def)
  show ?thesis
    using h1 h2 h3 load_user_unknown_id [OF h1 h2 h3, of "get_request ''/dashboard''"]
    by simp
qed



text \<open>
  Claim C9. Logging out twice in a row: the first call, made with a session that resolves
  to a user, ends the session and redirects to \<^verbatim>\<open>/login\<close>; the second call, made with
  the session it left, raises nothing and redirects to \<^verbatim>\<open>/login\<close> as well.
\<close>

theorem logout_twice:
  assumes "current_user s = Inr (Some u)"
  shows "logout s req1 = Inr (logout_user s, Redirect ''/login'' [])
       \<and> session_user_id (logout_user s) = None
       \<and> logout (logout_user s) req2 =
           Inr (flash ''Please log in to access this page.'' ''message'' (logout_user s),
                Redirect ''/login'' [(''next'', req_target req2)])"
  using assms
  by (simp add: logout_def login_required_def logout_view_def logout_user_def
      is_authenticated_def current_user_def unauthorized_def)

theorem logout_twice_witness:
  "current_user alice_session = Inr (Some alice_user)
   \<and> logout alice_session (get_request ''/logout'') =
       Inr (logout_user alice_session, Redirect ''/login'' [])
   \<and> logout (logout_user alice_session) (get_request ''/logout'') =
       Inr (flash ''Please log in to access this page.'' ''message'' (logout_user alice_session),
            Redirect ''/login'' [(''next'', ''/logout'')])"
proof -
  have v: "is_valid ''64b7f0c2a1d3e4f5a6b7c8d9''"
    by (simp add: is_valid_def is_hex_def)
  have h: "current_user alice_session = Inr (Some alice_user)"
    by (simp add: current_user_def alice_session_def alice_state_def empty_state_def
        load_user_def ObjectId_def v lower_hex_def find_one_def matches_def alice_document_def
        user_of_document_def getitem_def alice_user_def)
  show ?thesis
    using h logout_twice [OF h, of "get_request ''/logout''" "get_request ''/logout''"]
    by (simp add: get_request_def)
qed

section \<open>The login flow\<close>

text \<open>
  Claim C4. A submitted login that passes the form's checks and then fails, either because
  no record has the username (state \<open>s1\<close>) or because the password does not verify
  against the stored hash (state \<open>s2\<close>), has one outcome: the message
  \<^verbatim>\<open>Invalid username or password\<close> is flashed in category \<^verbatim>\<open>error\<close> and the login
  page is rendered with the same form. Response and message are the same in both cases.
\<close>

theorem login_failures_indistinguishable:
  assumes "req_method req = POST" and "csrf_error req = None"
    and "map_of (req_form req) ''username'' = Some u" and "4 \<le> length u" and "length u \<le> 20"
    and "map_of (req_form req) ''password'' = Some p" and "8 \<le> length p" and "length p \<le> 20"
    and unknown: "find_one [(''username'', Str u)] (users s1) = None"
    and known: "find_one [(''username'', Str u)] (users s2) = Some d"
    and stored: "map_of d ''password'' = Some (Str h)"
    and mismatch: "\<not> check_password_hash env h p"
  shows "login env s1 req =
           Inr (flash ''Invalid username or password'' ''error'' s1,
                Render ''login.html''
                  (Some \<lparr>form_fields = [(''username'', Some u), (''password'', Some p)],
                         errors = []\<rparr>))
       \<and> login env s2 req =
           Inr (flash ''Invalid username or password'' ''error'' s2,
                Render ''login.html''
                  (Some \<lparr>form_fields = [(''username'', Some u), (''password'', Some p)],
                         errors = []\<rparr>))"
proof -
  let ?form = "\<lparr>form_fields = [(''username'', Some u), (''password'', Some p)], errors = []\<rparr>"
  have v: "validate_on_submit LoginForm req (new_form LoginForm req) = (True, ?form)"
    using assms(1-8) by (rule login_form_accepts)
  have fu: "field_data ?form ''username'' = Some u"
    and fp: "field_data ?form ''password'' = Some p"
    by (simp_all add: field_data_def)
  have d: "d \<noteq> []" using stored by auto
  have c: "check_stored env d (Some p) = Inr False"
    using stored mismatch by (simp add: check_stored_def getitem_def)
  have 1: "login env s1 req = Inr (flash ''Invalid username or password'' ''error'' s1,
                                   Render ''login.html'' (Some ?form))"
    using unknown by (simp add: login_def v fu)
  have 2: "login env s2 req = Inr (flash ''Invalid username or password'' ''error'' s2,
                                   Render ''login.html'' (Some ?form))"
    using known d c by (simp add: login_def v fu fp)
  from 1 2 show ?thesis by simp
qed

theorem login_failures_indistinguishable_witness:
  "find_one [(''username'', Str ''alice2024'')] (users empty_state) = None
   \<and> find_one [(''username'', Str ''alice2024'')] (users alice_state) = Some alice_document
   \<and> map_of alice_document ''password'' = Some (Str ''salt$!dr0wssaP'')
   \<and> \<not> check_password_hash demo_env ''salt$!dr0wssaP'' ''Passw0rd?''
   \<and> login demo_env empty_state wrong_password_request =
       Inr (flash ''Invalid username or password'' ''error'' empty_state,
            Render ''login.html''
              (Some \<lparr>form_fields = [(''username'', Some ''alice2024''),
                                     (''password'', Some ''Passw0rd?'')],
                     errors = []\<rparr>))
   \<and> login demo_env alice_state wrong_password_request =
       Inr (flash ''Invalid username or password'' ''error'' alice_state,
            Render ''login.html''
              (Some \<lparr>form_fields = [(''username'', Some ''alice2024''),
                                     (''password'', Some ''Passw0rd?'')],
                     errors = []\<rparr>))"
proof -
  have r: "req_method wrong_password_request = POST" "csrf_error wrong_password_request = None"
    "map_of (req_form wrong_password_request) ''username'' = Some ''alice2024''"
    "4 \<le> length ''alice2024''" "length ''alice2024'' \<le> 20"
    "map_of (req_form wrong_password_request) ''password'' = Some ''Passw0rd?''"
    "8 \<le> length ''Passw0rd?''" "length ''Passw0rd?'' \<le> 20"
    by (simp_all add: wrong_password_request_def)
  have h9: "find_one [(''username'', Str ''alice2024'')] (users empty_state) = None"
    by (simp add: find_one_def empty_state_def)
  have h10: "find_one [(''username'', Str ''alice2024'')] (users alice_state) = Some alice_document"
    by (simp add: find_one_def alice_state_def empty_state_def matches_def alice_document_def)
  have h11: "map_of alice_document ''password'' = Some (Str ''salt$!dr0wssaP'')"
    by (simp add: alice_document_def)
  have h12: "\<not> check_password_hash demo_env ''salt$!dr0wssaP'' ''Passw0rd?''"
    by (simp add: demo_env_def)
  show ?thesis
    using h9 h10 h11 h12 login_failures_indistinguishable [OF r h9 h10 h11 h12]
    by simp
qed


section \<open>The registration flow\<close>

text \<open>
  Claim C6. Every registration request is answered. When the form validates, the
  collection afterwards is the collection before with one document appended; when any
  check of the form fails, the collection is as before.
\<close>

theorem register_insert_count:
  "\<exists>s' r. register env new_id salt s req = Inr (s', r) \<and>
     (if registration_accepted env s req then \<exists>d. users s' = users s @ [d]
      else users s' = users s)"
proof (cases "registration_accepted env s req")
  case True
  from register_accepted [OF this, of new_id salt] show ?thesis using True by auto
next
  case False
  from register_rejected [OF this, of new_id salt] show ?thesis using False by auto
qed

theorem register_insert_count_witness:
  "registration_accepted demo_env empty_state alice_request
   \<and> \<not> registration_accepted demo_env alice_state alice_request
   \<and> (\<exists>s' r. register demo_env (OID ''64b7f0c2a1d3e4f5a6b7c8d9'') ''salt'' empty_state
                 alice_request = Inr (s', r)
          \<and> (\<exists>d. users s' = users empty_state @ [d]))
   \<and> (\<exists>s' r. register demo_env (OID ''64b7f0c2a1d3e4f5a6b7c8d9'') ''salt'' alice_state
                 alice_request = Inr (s', r)
          \<and> users s' = users alice_state)"
proof -
  have a: "registration_accepted demo_env empty_state alice_request"
    by (simp add: registration_accepted_iff registration_contract_def alice_request_def
        demo_env_def empty_state_def taken_def)
  have b: "\<not> registration_accepted demo_env alice_state alice_request"
    by (simp add: registration_accepted_iff registration_contract_def alice_request_def
        demo_env_def alice_state_def empty_state_def taken_def alice_document_def)
  show ?thesis
    using a b
      register_insert_count [of demo_env "OID ''64b7f0c2a1d3e4f5a6b7c8d9''" "''salt''"
        empty_state alice_request]
      register_insert_count [of demo_env "OID ''64b7f0c2a1d3e4f5a6b7c8d9''" "''salt''"
        alice_state alice_request]
    by simp
qed

text \<open>
  Claim C5. An accepted registration is answered by a redirect to the login entry point.
  It issues no session: the session's user id and the flashed messages are as before, so
  a client that was anonymous is anonymous afterwards and is still turned away from the
  dashboard.
\<close>

theorem register_no_session:
  assumes "registration_accepted env s req"
  shows "\<exists>s'. register env new_id salt s req = Inr (s', Redirect ''/login'' [])
           \<and> session_user_id s' = session_user_id s \<and> flashes s' = flashes s
           \<and> (session_user_id s = None \<longrightarrow>
                 current_user s' = Inr None \<and> dashboard s' req' = Inr (unauthorized s' req'))"
proof -
  from register_accepted [OF assms, of new_id salt] obtain s' where
    r: "register env new_id salt s req = Inr (s', Redirect ''/login'' [])"
    and u: "session_user_id s' = session_user_id s" "flashes s' = flashes s"
    by auto
  have a: "session_user_id s = None \<longrightarrow>
          current_user s' = Inr None \<and> dashboard s' req' = Inr (unauthorized s' req')"
    using u by (simp add: current_user_def dashboard_def login_required_def)
  show ?thesis
    by (rule exI [of _ s']) (intro conjI r u a)
qed

theorem register_no_session_witness:
  "registration_accepted demo_env empty_state alice_request
   \<and> session_user_id empty_state = None
   \<and> (\<exists>s'. register demo_env (OID ''64b7f0c2a1d3e4f5a6b7c8d9'') ''salt'' empty_state
               alice_request = Inr (s', Redirect ''/login'' [])
          \<and> session_user_id s' = None \<and> flashes s' = flashes empty_state
          \<and> current_user s' = Inr None
          \<and> dashboard s' (get_request ''/dashboard'') =
              Inr (unauthorized s' (get_request ''/dashboard'')))"
proof -
  have a: "registration_accepted demo_env empty_state alice_request"
    by (simp add: registration_accepted_iff registration_contract_def alice_request_def
        demo_env_def empty_state_def taken_def)
  have n: "session_user_id empty_state = None"
    by (simp add: empty_state_def)
  show ?thesis
    using a n
      register_no_session [OF a, of "OID ''64b7f0c2a1d3e4f5a6b7c8d9''" "''salt''"
        "get_request ''/dashboard''"]
    by simp
qed






end
